theory Spec2Isabelle
  imports Complex_Main "HOL-Library.Word" "HOL-Library.Signed_Division"
begin

section \<open>Windows container configuration of the kubelet runtime\<close>

text \<open>
  A shallow embedding of \<^verbatim>\<open>generateWindowsContainerConfig\<close> from
  \<^verbatim>\<open>pkg/kubelet/kuberuntime/kuberuntime_container_windows.go\<close>.

  The Go function reads a container and a pod, the host's CPU count
  (\<^verbatim>\<open>sysinfo.NumCPU()\<close>), a feature gate and the effective security context, and
  fills a \<^verbatim>\<open>WindowsContainerConfig\<close>. All CPU quantities are \<^verbatim>\<open>int64\<close>: they are
  modelled as 64-bit words, so that \<open>+\<close> and \<open>*\<close> wrap around as they do in Go.
\<close>

subsection \<open>Machine integers\<close>

type_synonym int64 = "64 word"

text \<open>
  Go's \<^verbatim>\<open>/\<close> on \<^verbatim>\<open>int64\<close> truncates towards zero; the one quotient that does not fit,
  \<^verbatim>\<open>MinInt64 / -1\<close>, wraps to \<^verbatim>\<open>MinInt64\<close>. A zero divisor is a run-time panic, which
  the callers below check before they divide.
\<close>

definition div64 :: "int64 \<Rightarrow> int64 \<Rightarrow> int64" where
  "div64 a b = word_of_int (sint a sdiv sint b)"

subsection \<open>Data model\<close>

text \<open>\<^verbatim>\<open>runtimeapi.WindowsContainerResources\<close>\<close>

record WindowsContainerResources =
  CpuShares :: int64
  CpuCount :: int64
  CpuMaximum :: int64
  MemoryLimitInBytes :: int64

text \<open>\<^verbatim>\<open>runtimeapi.WindowsContainerSecurityContext\<close>\<close>

record WindowsContainerSecurityContext =
  RunAsUsername :: string
  CredentialSpec :: string

text \<open>\<^verbatim>\<open>runtimeapi.WindowsContainerConfig\<close>\<close>

record WindowsContainerConfig =
  Resources :: WindowsContainerResources
  SecurityContext :: WindowsContainerSecurityContext

text \<open>
  \<^verbatim>\<open>v1.WindowsSecurityContextOptions\<close> and the fields of \<^verbatim>\<open>v1.SecurityContext\<close> that the
  function reads; a nil pointer is \<open>None\<close>.
\<close>

record WindowsSecurityContextOptions =
  GMSACredentialSpec :: "string option"
  RunAsUserName :: "string option"

record v1_SecurityContext =
  RunAsUser :: "int64 option"
  WindowsOptions :: "WindowsSecurityContextOptions option"

text \<open>
  The two ways the function stops without a configuration: the run-time panic of an integer
  division by zero (line 62, when \<^verbatim>\<open>sysinfo.NumCPU()\<close> is 0), and the error returned at
  line 118, \<^verbatim>\<open>run as uid (%d) is not supported on Windows\<close>.
\<close>

datatype error = PanicDivideByZero | RunAsUidNotSupported int64

text \<open>
  The CPU request and limit are values of \<^verbatim>\<open>resource.Quantity\<close>, a type of the API
  machinery whose source is not in this repository. The function uses two of its methods.
  The spec (section 3) gives a CPU quantity as an integer number of millicores in which zero
  means unset; so a quantity is taken to be its \<^verbatim>\<open>int64\<close> number of millicores.
\<close>

type_synonym Quantity = int64

text \<open>
  Modelled from the spec: \<^verbatim>\<open>Quantity.MilliValue\<close>, missing from the source. It returns the
  number of millicores of the quantity (spec, section 3: \<open>cpuRequestMilli\<close>,
  \<open>cpuLimitMilli\<close>).
\<close>

definition MilliValue :: "Quantity \<Rightarrow> int64" where
  "MilliValue q = q"

text \<open>
  Modelled from the spec: \<^verbatim>\<open>Quantity.IsZero\<close>, missing from the source. A quantity is zero
  exactly when its number of millicores is 0 (spec, section 3: zero means unset; section 4.1:
  the CPU maximum is computed only when \<open>cpuLimitMilli > 0\<close>).
\<close>

definition IsZero :: "Quantity \<Rightarrow> bool" where
  "IsZero q = (q = 0)"

text \<open>
  What the function takes from its surroundings, in one record: the value of
  \<^verbatim>\<open>int64(sysinfo.NumCPU())\<close>, whether the feature gate \<^verbatim>\<open>WindowsGMSA\<close> is enabled, and
  the helper \<^verbatim>\<open>milliCPUToShares\<close>, which is defined in another file of the package and is
  therefore a parameter here.
\<close>

record Host =
  NumCPU :: int64
  WindowsGMSA :: bool
  milliCPUToShares :: "int64 \<Rightarrow> bool \<Rightarrow> int64"

text \<open>
  What the function reads from its arguments: the CPU request and limit of the container,
  its memory limit in bytes (\<^verbatim>\<open>container.Resources.Limits.Memory().Value()\<close>), the result of
  \<^verbatim>\<open>kubeletapis.ShouldIsolatedByHyperV(pod.Annotations)\<close>, the result of
  \<^verbatim>\<open>securitycontext.DetermineEffectiveSecurityContext(pod, container)\<close>, and the
  \<^verbatim>\<open>username\<close> argument. The argument \<^verbatim>\<open>uid\<close> is never read.
\<close>

record Request =
  cpuRequest :: Quantity
  cpuLimit :: Quantity
  memoryLimit :: int64
  isolatedByHyperv :: bool
  effectiveSc :: v1_SecurityContext
  username :: string

subsection \<open>The CPU limit (lines 57 to 79)\<close>

text \<open>Line 64: the number of virtual processors of a Hyper-V container.\<close>

definition hypervCpuCount :: "int64 \<Rightarrow> int64" where
  "hypervCpuCount milli = div64 (milli + 999) 1000"

text \<open>
  Lines 62 to 70: the value of the local variable \<^verbatim>\<open>cpuMaximum\<close> when control reaches the
  clamp of line 72. The caller has checked that \<open>numCPU\<close> is not 0.
\<close>

definition cpuMaximumBeforeClamp :: "int64 \<Rightarrow> int64 \<Rightarrow> bool \<Rightarrow> int64" where
  "cpuMaximumBeforeClamp milli numCPU hyperv =
     (let cpuMaximum = div64 (div64 (10000 * milli) numCPU) 1000 in
      if hyperv then
        (let cpuCount = hypervCpuCount milli in
         if cpuCount \<noteq> 0 then div64 (div64 milli cpuCount * 10000) 1000 else cpuMaximum)
      else cpuMaximum)"

text \<open>Lines 72 to 76.\<close>

definition clampCpuMaximum :: "int64 \<Rightarrow> int64" where
  "clampCpuMaximum cpuMaximum =
     (if cpuMaximum <s 1 then 1 else if 10000 <s cpuMaximum then 10000 else cpuMaximum)"

text \<open>Lines 57 to 79, on the resources record \<^verbatim>\<open>wc.Resources\<close>.\<close>

definition applyCpuLimit ::
  "Host \<Rightarrow> Request \<Rightarrow> WindowsContainerResources \<Rightarrow> error + WindowsContainerResources" where
  "applyCpuLimit h rq r =
     (if \<not> IsZero (cpuLimit rq) then
        if NumCPU h = 0 then Inl PanicDivideByZero
        else
          (let r1 = (if isolatedByHyperv rq
                     then r\<lparr>CpuCount := hypervCpuCount (MilliValue (cpuLimit rq))\<rparr>
                     else r)
           in Inr (r1\<lparr>CpuMaximum :=
                 clampCpuMaximum
                   (cpuMaximumBeforeClamp (MilliValue (cpuLimit rq)) (NumCPU h)
                      (isolatedByHyperv rq))\<rparr>))
      else Inr r)"

subsection \<open>CPU shares (lines 81 to 85)\<close>

text \<open>Lines 81 to 84: the value of the local variable \<^verbatim>\<open>cpuShares\<close> at line 85.\<close>

definition computeCpuShares :: "Host \<Rightarrow> Request \<Rightarrow> int64" where
  "computeCpuShares h rq =
     (let cpuShares = milliCPUToShares h (MilliValue (cpuLimit rq)) (isolatedByHyperv rq)
      in if cpuShares = 0
         then milliCPUToShares h (MilliValue (cpuRequest rq)) (isolatedByHyperv rq)
         else cpuShares)"

text \<open>Line 85.\<close>

definition applyCpuShares :: "Host \<Rightarrow> Request \<Rightarrow> WindowsContainerResources \<Rightarrow> WindowsContainerResources" where
  "applyCpuShares h rq r = r\<lparr>CpuShares := computeCpuShares h rq\<rparr>"

subsection \<open>Precedence of the processor controls (lines 87 to 107)\<close>

text \<open>The \<^verbatim>\<open>klog\<close> warnings of this block write to the log only and are left out.\<close>

definition applyPrecedence :: "Request \<Rightarrow> WindowsContainerResources \<Rightarrow> WindowsContainerResources" where
  "applyPrecedence rq r =
     (if \<not> isolatedByHyperv rq then
        if 0 <s CpuCount r then
          (let r1 = (if 0 <s CpuShares r then r\<lparr>CpuShares := 0\<rparr> else r)
           in if 0 <s CpuMaximum r1 then r1\<lparr>CpuMaximum := 0\<rparr> else r1)
        else if 0 <s CpuShares r then
          (if 0 <s CpuMaximum r then r\<lparr>CpuMaximum := 0\<rparr> else r)
        else r
      else r)"

subsection \<open>Memory (lines 109 to 112)\<close>

definition applyMemoryLimit :: "Request \<Rightarrow> WindowsContainerResources \<Rightarrow> WindowsContainerResources" where
  "applyMemoryLimit rq r =
     (if memoryLimit rq \<noteq> 0 then r\<lparr>MemoryLimitInBytes := memoryLimit rq\<rparr> else r)"

subsection \<open>The resources as a whole (lines 49 to 112)\<close>

text \<open>Line 50: the zero value of the resources record.\<close>

definition emptyResources :: WindowsContainerResources where
  "emptyResources = \<lparr>CpuShares = 0, CpuCount = 0, CpuMaximum = 0, MemoryLimitInBytes = 0\<rparr>"

text \<open>Lines 49 to 85: the record on entry to the precedence block.\<close>

definition resourcesBeforePrecedence :: "Host \<Rightarrow> Request \<Rightarrow> error + WindowsContainerResources" where
  "resourcesBeforePrecedence h rq =
     (case applyCpuLimit h rq emptyResources of
        Inl e \<Rightarrow> Inl e
      | Inr r \<Rightarrow> Inr (applyCpuShares h rq r))"

text \<open>Lines 49 to 112.\<close>

definition generateResources :: "Host \<Rightarrow> Request \<Rightarrow> error + WindowsContainerResources" where
  "generateResources h rq =
     (case resourcesBeforePrecedence h rq of
        Inl e \<Rightarrow> Inl e
      | Inr r \<Rightarrow> Inr (applyMemoryLimit rq (applyPrecedence rq r)))"

subsection \<open>The security context (lines 114 to 132)\<close>

text \<open>Line 51: the zero value of the security context.\<close>

definition emptySecurityContext :: WindowsContainerSecurityContext where
  "emptySecurityContext = \<lparr>RunAsUsername = [], CredentialSpec = []\<rparr>"

definition generateSecurityContext :: "Host \<Rightarrow> Request \<Rightarrow> error + WindowsContainerSecurityContext" where
  "generateSecurityContext h rq =
     (case RunAsUser (effectiveSc rq) of
        Some uid \<Rightarrow> Inl (RunAsUidNotSupported uid)
      | None \<Rightarrow>
          (let s0 = emptySecurityContext;
               s1 = (if username rq \<noteq> [] then s0\<lparr>RunAsUsername := username rq\<rparr> else s0);
               s2 = (if WindowsGMSA h then
                       (case WindowsOptions (effectiveSc rq) of
                          Some wo \<Rightarrow>
                            (case GMSACredentialSpec wo of
                               Some spec \<Rightarrow> s1\<lparr>CredentialSpec := spec\<rparr>
                             | None \<Rightarrow> s1)
                        | None \<Rightarrow> s1)
                     else s1);
               s3 = (case WindowsOptions (effectiveSc rq) of
                       Some wo \<Rightarrow>
                         (case RunAsUserName wo of
                            Some name \<Rightarrow> s2\<lparr>RunAsUsername := name\<rparr>
                          | None \<Rightarrow> s2)
                     | None \<Rightarrow> s2)
           in Inr s3))"

subsection \<open>The function (lines 48 to 135)\<close>

definition generateWindowsContainerConfig :: "Host \<Rightarrow> Request \<Rightarrow> error + WindowsContainerConfig" where
  "generateWindowsContainerConfig h rq =
     (case generateResources h rq of
        Inl e \<Rightarrow> Inl e
      | Inr r \<Rightarrow>
          (case generateSecurityContext h rq of
             Inl e \<Rightarrow> Inl e
           | Inr s \<Rightarrow> Inr \<lparr>Resources = r, SecurityContext = s\<rparr>))"

subsection \<open>Vocabulary of the properties\<close>

text \<open>How many of the three processor controls of a resources record are set.\<close>

definition nonZeroCpuControls :: "WindowsContainerResources \<Rightarrow> nat" where
  "nonZeroCpuControls r =
     length (filter (\<lambda>v. v \<noteq> 0) [CpuCount r, CpuShares r, CpuMaximum r])"

text \<open>
  A millicore-to-shares mapping for the worked examples: no weight for 0 millicores and the
  weight 5000 for any other value. The general theorems are about every mapping; only the
  examples fix this one.
\<close>

definition flatShares :: "int64 \<Rightarrow> bool \<Rightarrow> int64" where
  "flatShares milliCPU hyperv = (if milliCPU = 0 then 0 else 5000)"

text \<open>The hosts and requests of the worked examples.\<close>

definition hostWith :: "int64 \<Rightarrow> Host" where
  "hostWith n = \<lparr>NumCPU = n, WindowsGMSA = False, milliCPUToShares = flatShares\<rparr>"

definition requestWith :: "Quantity \<Rightarrow> bool \<Rightarrow> Request" where
  "requestWith limit hyperv =
     \<lparr>cpuRequest = 0, cpuLimit = limit, memoryLimit = 0, isolatedByHyperv = hyperv,
      effectiveSc = \<lparr>RunAsUser = None, WindowsOptions = None\<rparr>, username = []\<rparr>"

section \<open>Arithmetic on 64-bit integers\<close>

lemma sint64_bounds:
  "- 9223372036854775808 \<le> sint (w :: int64) \<and> sint w \<le> 9223372036854775807"
  using sint_ge [of w] sint_lt [of w] by simp

lemma sint_word_of_int64:
  "- 9223372036854775808 \<le> k \<Longrightarrow> k \<le> 9223372036854775807 \<Longrightarrow>
   sint (word_of_int k :: int64) = k"
  by (simp add: sint_sbintrunc' signed_take_bit_int_eq_self)

lemma sdiv_pos_eq_div: "0 \<le> a \<Longrightarrow> 0 < b \<Longrightarrow> (a :: int) sdiv b = a div b"
  by (cases "a = 0") (simp_all add: signed_divide_int_def)

text \<open>By a positive divisor, the truncating quotient lies between the dividend and 0.\<close>

lemma sdiv_pos_divisor:
  assumes "0 < (b :: int)"
  shows "(0 \<le> a \<longrightarrow> 0 \<le> a sdiv b \<and> a sdiv b \<le> a) \<and>
         (a \<le> 0 \<longrightarrow> a \<le> a sdiv b \<and> a sdiv b \<le> 0)"
proof (cases "0 \<le> a")
  case True
  then have "a sdiv b = a div b" using assms by (rule sdiv_pos_eq_div)
  moreover have "0 \<le> a div b" using True assms by (simp add: div_int_pos_iff)
  moreover have "a div b \<le> a" using True by (cases "a = 0") (simp_all add: int_div_le_self)
  ultimately show ?thesis using True by auto
next
  case False
  then have neg: "a < 0" by simp
  then have eq: "a sdiv b = - ((- a) div b)"
    using assms by (simp add: signed_divide_int_def)
  have "0 \<le> (- a) div b" using neg assms by (simp add: div_int_pos_iff)
  moreover have "(- a) div b \<le> - a" using neg by (simp add: int_div_le_self)
  ultimately show ?thesis using neg eq by auto
qed

text \<open>So a division by a positive divisor never wraps.\<close>

lemma sint_div64:
  assumes "0 < sint b"
  shows "sint (div64 a b) = sint a sdiv sint b"
proof -
  have "- 9223372036854775808 \<le> sint a sdiv sint b \<and>
        sint a sdiv sint b \<le> 9223372036854775807"
    using sdiv_pos_divisor [OF assms, of "sint a"] sint64_bounds [of a]
    by (cases "0 \<le> sint a") auto
  then show ?thesis
    by (simp add: div64_def sint_word_of_int64)
qed

lemma sint_div64_1000: "sint (div64 a 1000) = sint a sdiv 1000"
  using sint_div64 [of 1000 a] by simp

lemma times_10000_div_1000: "(q :: int) * 10000 div 1000 = q * 10"
  by simp

text \<open>Rounding up to a multiple of 1000 by adding 999 first.\<close>

lemma neg_div_1000: "- (- k div 1000) = ((k :: int) + 999) div 1000"
proof -
  define a b where "a = - k div 1000" and "b = - k mod 1000"
  define c d where "c = (k + 999) div 1000" and "d = (k + 999) mod 1000"
  have "- k = 1000 * a + b" "0 \<le> b" "b < 1000" by (simp_all add: a_def b_def)
  moreover have "k + 999 = 1000 * c + d" "0 \<le> d" "d < 1000" by (simp_all add: c_def d_def)
  ultimately have "- a = c" by linarith
  then show ?thesis by (simp add: a_def c_def)
qed

lemma ceiling_div_1000: "\<lceil>real_of_int k / 1000\<rceil> = (k + 999) div 1000"
proof -
  have "\<lceil>real_of_int k / real_of_int 1000\<rceil> = - (- k div 1000)"
    by (rule ceiling_divide_eq_div)
  then show ?thesis by (simp add: neg_div_1000)
qed

lemma sint_add_999:
  "sint (m :: int64) \<le> 9223372036854774808 \<Longrightarrow> sint (m + 999) = sint m + 999"
  using sint64_bounds [of m]
  by (simp add: sint_word_add signed_take_bit_int_eq_self)

text \<open>
  The count of whole processors, as an integer: at least 1, at most the limit, and enough
  to cover the limit.
\<close>

lemma count_bounds:
  assumes "0 < (k :: int)"
  shows "1 \<le> (k + 999) div 1000" and "(k + 999) div 1000 \<le> k"
    and "k \<le> 1000 * ((k + 999) div 1000)"
proof -
  define q r where "q = (k + 999) div 1000" and "r = (k + 999) mod 1000"
  have "k + 999 = 1000 * q + r" by (simp add: q_def r_def)
  moreover have "0 \<le> r" "r < 1000" by (simp_all add: r_def)
  ultimately have "1 \<le> q \<and> q \<le> k \<and> k \<le> 1000 * q" using assms by linarith
  then show "1 \<le> (k + 999) div 1000" and "(k + 999) div 1000 \<le> k"
    and "k \<le> 1000 * ((k + 999) div 1000)"
    by (simp_all add: q_def)
qed

lemma quotient_bounds:
  assumes "0 < (k :: int)" and "c = (k + 999) div 1000"
  shows "1 \<le> k div c" and "k div c \<le> 1000"
proof -
  have c: "1 \<le> c" "c \<le> k" "k \<le> 1000 * c"
    using count_bounds [OF assms(1)] assms(2) by simp_all
  have "c div c \<le> k div c" using c by (intro zdiv_mono1) simp_all
  then show "1 \<le> k div c" using c by simp
  have "k div c \<le> (1000 * c) div c" using c by (intro zdiv_mono1) simp_all
  then show "k div c \<le> 1000" using c by simp
qed

text \<open>On positive integers the truncating quotient is the quotient.\<close>

lemma trunc_formula_pos:
  assumes "0 < (k :: int)" and "0 < c"
  shows "k sdiv c * 10000 sdiv 1000 = k div c * 10000 div 1000"
proof -
  have "0 \<le> k div c" using assms by (simp add: div_int_pos_iff)
  then have "0 \<le> k div c * 10000" by simp
  then show ?thesis using assms by (simp add: sdiv_pos_eq_div)
qed

lemma pos_of_nonneg_nonzero: "0 \<le>s (x :: int64) \<Longrightarrow> x \<noteq> 0 \<Longrightarrow> 0 <s x"
  using signed.le_neq_trans [of 0 x] by auto

section \<open>The clamp\<close>

lemma sint_clamp: "sint (clampCpuMaximum v) = max 1 (min 10000 (sint v))"
  by (simp add: clampCpuMaximum_def word_sless_alt)

lemma clamp_bounds: "1 \<le>s clampCpuMaximum v \<and> clampCpuMaximum v \<le>s 10000"
  by (simp add: word_sle_eq sint_clamp)

lemma clamp_pos: "0 <s clampCpuMaximum v"
  by (simp add: word_sless_alt sint_clamp)

lemma clamp_nonzero: "clampCpuMaximum v \<noteq> 0"
  using clamp_pos [of v] by auto

lemma clamp_id: "1 \<le> sint v \<Longrightarrow> sint v \<le> 10000 \<Longrightarrow> clampCpuMaximum v = v"
  by (simp add: clampCpuMaximum_def word_sless_alt)

section \<open>The CPU limit in integers\<close>

text \<open>
  What lines 62 to 70 compute, read as integers. With Hyper-V isolation and a limit that
  leaves room for the addition of 999, nothing wraps.
\<close>

lemma sint_hypervCpuCount:
  assumes "0 < sint m" and "sint m \<le> 9223372036854774808"
  shows "sint (hypervCpuCount m) = (sint m + 999) div 1000"
  using assms
  by (simp add: hypervCpuCount_def sint_div64_1000 sint_add_999 sdiv_pos_eq_div)

lemma sint_cpuMaximumBeforeClamp_hyperv:
  assumes "0 < sint m" and "sint m \<le> 9223372036854774808"
  shows "sint (cpuMaximumBeforeClamp m n True) =
           sint m div ((sint m + 999) div 1000) * 10000 div 1000"
proof -
  define c where "c = (sint m + 999) div 1000"
  have cw: "sint (hypervCpuCount m) = c"
    using assms by (simp add: c_def sint_hypervCpuCount)
  have cpos: "1 \<le> c" using count_bounds(1) [OF assms(1)] by (simp add: c_def)
  then have nz: "hypervCpuCount m \<noteq> 0" using cw by auto
  have q: "1 \<le> sint m div c" "sint m div c \<le> 1000"
    using quotient_bounds [OF assms(1) c_def] by simp_all
  have d1: "sint (div64 m (hypervCpuCount m)) = sint m div c"
    using cpos assms(1) by (simp add: sint_div64 cw sdiv_pos_eq_div)
  have d2: "sint (div64 m (hypervCpuCount m) * 10000) = sint m div c * 10000"
    using q by (simp add: sint_word_mult d1 signed_take_bit_int_eq_self)
  have "sint (div64 (div64 m (hypervCpuCount m) * 10000) 1000) = sint m div c * 10000 div 1000"
    using q by (simp add: sint_div64_1000 d2 sdiv_pos_eq_div)
  then show ?thesis
    using nz by (simp add: cpuMaximumBeforeClamp_def Let_def c_def)
qed

lemma cpuMaximumBeforeClamp_hyperv_range:
  assumes "0 < sint m" and "sint m \<le> 9223372036854774808"
  shows "10 \<le> sint (cpuMaximumBeforeClamp m n True)"
    and "sint (cpuMaximumBeforeClamp m n True) \<le> 10000"
proof -
  define c where "c = (sint m + 999) div 1000"
  have q: "1 \<le> sint m div c" "sint m div c \<le> 1000"
    using quotient_bounds [OF assms(1) c_def] by simp_all
  have eq: "sint (cpuMaximumBeforeClamp m n True) = sint m div c * 10000 div 1000"
    using assms by (simp add: sint_cpuMaximumBeforeClamp_hyperv c_def)
  show "10 \<le> sint (cpuMaximumBeforeClamp m n True)"
    using q unfolding eq times_10000_div_1000 by linarith
  show "sint (cpuMaximumBeforeClamp m n True) \<le> 10000"
    using q unfolding eq times_10000_div_1000 by linarith
qed

text \<open>
  Without Hyper-V isolation the product by 10000 is the one operation that can wrap; the
  two divisions cannot.
\<close>

lemma sint_cpuMaximumBeforeClamp_default:
  assumes "0 < sint n"
  shows "sint (cpuMaximumBeforeClamp m n False) =
           signed_take_bit 63 (10000 * sint m) sdiv sint n sdiv 1000"
  using assms by (simp add: cpuMaximumBeforeClamp_def sint_div64_1000 sint_div64 sint_word_mult)

lemma sint_cpuMaximumBeforeClamp_default_exact:
  assumes "0 < sint n" and "0 < sint m" and "sint m \<le> 922337203685477"
  shows "sint (cpuMaximumBeforeClamp m n False) = 10000 * sint m div sint n div 1000"
proof -
  have "signed_take_bit 63 (10000 * sint m) = 10000 * sint m"
    using assms by (simp add: signed_take_bit_int_eq_self)
  moreover have "0 \<le> 10000 * sint m div sint n"
    using assms by (simp add: div_int_pos_iff)
  ultimately show ?thesis
    using assms by (simp add: sint_cpuMaximumBeforeClamp_default sdiv_pos_eq_div)
qed

section \<open>The function, stage by stage\<close>

text \<open>The record on entry to the precedence block, field by field.\<close>

lemma resourcesBeforePrecedence_eq:
  "resourcesBeforePrecedence h rq =
     (if \<not> IsZero (cpuLimit rq) \<and> NumCPU h = 0 then Inl PanicDivideByZero
      else Inr \<lparr>CpuShares = computeCpuShares h rq,
                CpuCount = (if \<not> IsZero (cpuLimit rq) \<and> isolatedByHyperv rq
                            then hypervCpuCount (MilliValue (cpuLimit rq)) else 0),
                CpuMaximum = (if \<not> IsZero (cpuLimit rq)
                              then clampCpuMaximum
                                     (cpuMaximumBeforeClamp (MilliValue (cpuLimit rq))
                                        (NumCPU h) (isolatedByHyperv rq))
                              else 0),
                MemoryLimitInBytes = 0\<rparr>)"
  by (simp add: resourcesBeforePrecedence_def applyCpuLimit_def applyCpuShares_def
      emptyResources_def Let_def)

text \<open>The security context fails on a numeric user id and on nothing else.\<close>

lemma generateSecurityContext_Inl:
  "generateSecurityContext h rq = Inl e \<longleftrightarrow>
     map_option RunAsUidNotSupported (RunAsUser (effectiveSc rq)) = Some e"
  by (auto simp add: generateSecurityContext_def Let_def split: option.splits)

text \<open>
  Once the resources are computed, the function returns them unchanged, or the error of the
  security context.
\<close>

lemma config_of_resources:
  assumes "generateResources h rq = Inr r" and "P r"
  shows "case generateWindowsContainerConfig h rq of
           Inr wc \<Rightarrow> P (Resources wc)
         | Inl e \<Rightarrow> map_option RunAsUidNotSupported (RunAsUser (effectiveSc rq)) = Some e"
proof (cases "generateSecurityContext h rq")
  case (Inl e)
  then have "map_option RunAsUidNotSupported (RunAsUser (effectiveSc rq)) = Some e"
    by (simp only: generateSecurityContext_Inl)
  then show ?thesis
    using assms Inl by (simp add: generateWindowsContainerConfig_def)
next
  case (Inr s)
  then show ?thesis
    using assms by (simp add: generateWindowsContainerConfig_def)
qed

text \<open>The function stops without a configuration only in the two ways of the error type.\<close>

lemma config_cases:
  "case generateWindowsContainerConfig h rq of
     Inr wc \<Rightarrow> generateResources h rq = Inr (Resources wc) \<and>
               generateSecurityContext h rq = Inr (SecurityContext wc)
   | Inl e \<Rightarrow> (e = PanicDivideByZero \<and> NumCPU h = 0 \<and> \<not> IsZero (cpuLimit rq)) \<or>
              map_option RunAsUidNotSupported (RunAsUser (effectiveSc rq)) = Some e"
proof (cases "generateResources h rq")
  case (Inl e)
  then have "e = PanicDivideByZero \<and> NumCPU h = 0 \<and> \<not> IsZero (cpuLimit rq)"
    by (simp add: generateResources_def resourcesBeforePrecedence_eq split: if_splits)
  then show ?thesis using Inl by (simp add: generateWindowsContainerConfig_def)
next
  case (Inr r)
  show ?thesis
  proof (cases "generateSecurityContext h rq")
    case (Inl e)
    then have "map_option RunAsUidNotSupported (RunAsUser (effectiveSc rq)) = Some e"
      by (simp only: generateSecurityContext_Inl)
    then show ?thesis using Inr Inl by (simp add: generateWindowsContainerConfig_def)
  next
    case s: (Inr s)
    then show ?thesis using Inr by (simp add: generateWindowsContainerConfig_def)
  qed
qed

lemma generateResources_no_panic:
  "IsZero (cpuLimit rq) \<or> NumCPU h \<noteq> 0 \<Longrightarrow> \<not> isl (generateResources h rq)"
  by (simp add: generateResources_def resourcesBeforePrecedence_eq)

lemma RunAsUsername_override:
  assumes "WindowsOptions (effectiveSc rq) = Some wo" and "RunAsUserName wo = Some name"
    and "generateSecurityContext h rq = Inr s"
  shows "RunAsUsername s = name"
  using assms
  by (auto simp add: generateSecurityContext_def Let_def split: option.splits if_splits)

text \<open>Without Hyper-V isolation: the resources that the function computes, field by field.\<close>

lemma generateResources_default:
  assumes "\<not> isolatedByHyperv rq" and "generateResources h rq = Inr r"
  shows "CpuCount r = 0"
    and "CpuShares r = computeCpuShares h rq"
    and "CpuMaximum r =
           (if IsZero (cpuLimit rq) \<or> 0 <s computeCpuShares h rq then 0
            else clampCpuMaximum
                   (cpuMaximumBeforeClamp (MilliValue (cpuLimit rq)) (NumCPU h) False))"
  using assms
  by (auto simp add: generateResources_def resourcesBeforePrecedence_eq applyPrecedence_def
      applyMemoryLimit_def sint_clamp word_sless_alt split: if_splits)

lemma generateResources_Inr:
  assumes "IsZero (cpuLimit rq) \<or> NumCPU h \<noteq> 0"
  obtains r where "generateResources h rq = Inr r"
  using generateResources_no_panic [OF assms] by (cases "generateResources h rq") auto

lemma computeCpuShares_nonneg:
  assumes "\<And>m. 0 \<le>s milliCPUToShares h m (isolatedByHyperv rq)"
  shows "0 \<le>s computeCpuShares h rq"
  using assms by (simp add: computeCpuShares_def Let_def)

text \<open>With Hyper-V isolation and a limit: the resources that the function computes.\<close>

lemma generateResources_hyperv:
  assumes "isolatedByHyperv rq" and "\<not> IsZero (cpuLimit rq)"
    and "generateResources h rq = Inr r"
  shows "CpuCount r = hypervCpuCount (MilliValue (cpuLimit rq))"
    and "CpuMaximum r =
           clampCpuMaximum (cpuMaximumBeforeClamp (MilliValue (cpuLimit rq)) (NumCPU h) True)"
  using assms
  by (auto simp add: generateResources_def resourcesBeforePrecedence_eq applyPrecedence_def
      applyMemoryLimit_def split: if_splits)

text \<open>The equations that evaluate the function on the worked examples.\<close>

lemmas example_defs = hostWith_def requestWith_def flatShares_def

lemmas stage_defs = generateWindowsContainerConfig_def generateResources_def
  resourcesBeforePrecedence_eq computeCpuShares_def
  applyPrecedence_def applyMemoryLimit_def generateSecurityContext_def emptyResources_def
  emptySecurityContext_def IsZero_def MilliValue_def clampCpuMaximum_def
  cpuMaximumBeforeClamp_def div64_def hypervCpuCount_def word_sless_alt word_sle_eq

section \<open>Errors\<close>

text \<open>
  Claim C6. On a host with a positive CPU count, the function returns an error exactly when
  the effective security context carries a numeric \<^verbatim>\<open>RunAsUser\<close>. The error is then the
  one of line 118, for that user id, whatever the other fields are; without a
  \<^verbatim>\<open>RunAsUser\<close> the function returns a configuration.
\<close>

theorem error_iff_RunAsUser:
  assumes "0 <s NumCPU h"
  shows "case RunAsUser (effectiveSc rq) of
           Some uid \<Rightarrow> generateWindowsContainerConfig h rq = Inl (RunAsUidNotSupported uid)
         | None \<Rightarrow> \<not> isl (generateWindowsContainerConfig h rq)"
proof -
  from assms have nz: "NumCPU h \<noteq> 0" by auto
  then obtain r where r: "generateResources h rq = Inr r"
    using generateResources_no_panic [of rq h] by (cases "generateResources h rq") auto
  show ?thesis
  proof (cases "RunAsUser (effectiveSc rq)")
    case None
    then show ?thesis using r
      by (simp add: generateWindowsContainerConfig_def generateSecurityContext_def Let_def)
  next
    case (Some uid)
    then show ?thesis using r
      by (simp add: generateWindowsContainerConfig_def generateSecurityContext_def)
  qed
qed

text \<open>
  On a host of 4 CPUs, a limit of 2500 millicores with the user id 1000 gives the error for
  1000, and the same request without a user id gives a configuration.
\<close>

theorem error_iff_RunAsUser_witness:
  "0 <s NumCPU (hostWith 4) \<and>
   generateWindowsContainerConfig (hostWith 4)
     ((requestWith 2500 False)\<lparr>effectiveSc := \<lparr>RunAsUser = Some 1000, WindowsOptions = None\<rparr>\<rparr>)
     = Inl (RunAsUidNotSupported 1000) \<and>
   \<not> isl (generateWindowsContainerConfig (hostWith 4) (requestWith 2500 False))"
  using error_iff_RunAsUser [of "hostWith 4"
          "(requestWith 2500 False)\<lparr>effectiveSc := \<lparr>RunAsUser = Some 1000, WindowsOptions = None\<rparr>\<rparr>"]
        error_iff_RunAsUser [of "hostWith 4" "requestWith 2500 False"]
  by (simp add: hostWith_def requestWith_def word_sless_alt)

section \<open>The user name\<close>

text \<open>
  Claim C7. When the effective security context carries a Windows-specific
  \<^verbatim>\<open>RunAsUserName\<close>, every configuration the function returns has that name as its
  \<^verbatim>\<open>RunAsUsername\<close>, whatever the \<^verbatim>\<open>username\<close> argument is; and the function returns a
  configuration unless it stops on the division by a zero CPU count or on a numeric
  \<^verbatim>\<open>RunAsUser\<close>.
\<close>

theorem windows_RunAsUserName_overrides:
  assumes "WindowsOptions (effectiveSc rq) = Some wo" and "RunAsUserName wo = Some name"
  shows "case generateWindowsContainerConfig h rq of
           Inr wc \<Rightarrow> RunAsUsername (SecurityContext wc) = name
         | Inl e \<Rightarrow> (e = PanicDivideByZero \<and> NumCPU h = 0 \<and> \<not> IsZero (cpuLimit rq)) \<or>
                    map_option RunAsUidNotSupported (RunAsUser (effectiveSc rq)) = Some e"
proof (cases "generateWindowsContainerConfig h rq")
  case (Inl e)
  then show ?thesis using config_cases [of h rq] by simp
next
  case (Inr wc)
  then have "generateSecurityContext h rq = Inr (SecurityContext wc)"
    using config_cases [of h rq] by simp
  then have "RunAsUsername (SecurityContext wc) = name"
    using assms by (rule RunAsUsername_override [rotated 2])
  then show ?thesis using Inr by simp
qed

text \<open>The supplied user name \<open>alice\<close> with the Windows override \<open>bob\<close> gives \<open>bob\<close>.\<close>

theorem windows_RunAsUserName_overrides_witness:
  "generateWindowsContainerConfig (hostWith 4)
     ((requestWith 0 False)
        \<lparr>effectiveSc := \<lparr>RunAsUser = None,
            WindowsOptions = Some \<lparr>GMSACredentialSpec = None, RunAsUserName = Some ''bob''\<rparr>\<rparr>,
         username := ''alice''\<rparr>)
   = Inr \<lparr>Resources = emptyResources,
          SecurityContext = \<lparr>RunAsUsername = ''bob'', CredentialSpec = []\<rparr>\<rparr>"
  using windows_RunAsUserName_overrides [of
      "(requestWith 0 False)
        \<lparr>effectiveSc := \<lparr>RunAsUser = None,
            WindowsOptions = Some \<lparr>GMSACredentialSpec = None, RunAsUserName = Some ''bob''\<rparr>\<rparr>,
         username := ''alice''\<rparr>"
      "\<lparr>GMSACredentialSpec = None, RunAsUserName = Some ''bob''\<rparr>" "''bob''" "hostWith 4"]
  by (simp add: hostWith_def requestWith_def flatShares_def generateWindowsContainerConfig_def
      generateResources_def resourcesBeforePrecedence_eq computeCpuShares_def applyPrecedence_def
      applyMemoryLimit_def generateSecurityContext_def emptyResources_def emptySecurityContext_def
      IsZero_def MilliValue_def)

section \<open>CPU shares\<close>

text \<open>
  Claim C9. The \<^verbatim>\<open>CpuShares\<close> of the record that enters the precedence block is the
  millicore-to-shares mapping of the CPU limit when that is not 0, and otherwise the mapping
  of the CPU request; the function gets that far unless it has stopped on the division by a
  zero CPU count. In particular, when limit and request are both 0 and the mapping sends 0
  to 0, the \<^verbatim>\<open>CpuShares\<close> of the returned configuration is 0.
\<close>

theorem cpuShares_limit_then_request:
  "(case resourcesBeforePrecedence h rq of
      Inr r \<Rightarrow> CpuShares r =
        (if milliCPUToShares h (MilliValue (cpuLimit rq)) (isolatedByHyperv rq) \<noteq> 0
         then milliCPUToShares h (MilliValue (cpuLimit rq)) (isolatedByHyperv rq)
         else milliCPUToShares h (MilliValue (cpuRequest rq)) (isolatedByHyperv rq))
    | Inl e \<Rightarrow> e = PanicDivideByZero \<and> NumCPU h = 0 \<and> \<not> IsZero (cpuLimit rq)) \<and>
   (MilliValue (cpuLimit rq) = 0 \<and> MilliValue (cpuRequest rq) = 0 \<and>
    milliCPUToShares h 0 (isolatedByHyperv rq) = 0 \<longrightarrow>
      (case generateWindowsContainerConfig h rq of
         Inr wc \<Rightarrow> CpuShares (Resources wc) = 0
       | Inl e \<Rightarrow> map_option RunAsUidNotSupported (RunAsUser (effectiveSc rq)) = Some e))"
proof (intro conjI impI)
  show "case resourcesBeforePrecedence h rq of
      Inr r \<Rightarrow> CpuShares r =
        (if milliCPUToShares h (MilliValue (cpuLimit rq)) (isolatedByHyperv rq) \<noteq> 0
         then milliCPUToShares h (MilliValue (cpuLimit rq)) (isolatedByHyperv rq)
         else milliCPUToShares h (MilliValue (cpuRequest rq)) (isolatedByHyperv rq))
    | Inl e \<Rightarrow> e = PanicDivideByZero \<and> NumCPU h = 0 \<and> \<not> IsZero (cpuLimit rq)"
    by (simp add: resourcesBeforePrecedence_eq computeCpuShares_def Let_def)
next
  assume z: "MilliValue (cpuLimit rq) = 0 \<and> MilliValue (cpuRequest rq) = 0 \<and>
    milliCPUToShares h 0 (isolatedByHyperv rq) = 0"
  then have "generateResources h rq = Inr emptyResources \<or>
    generateResources h rq = Inr (emptyResources\<lparr>MemoryLimitInBytes := memoryLimit rq\<rparr>)"
    by (simp add: generateResources_def resourcesBeforePrecedence_eq computeCpuShares_def
        applyPrecedence_def applyMemoryLimit_def emptyResources_def IsZero_def MilliValue_def)
  then obtain r where "generateResources h rq = Inr r" and "CpuShares r = 0"
    by (auto simp add: emptyResources_def)
  then show "case generateWindowsContainerConfig h rq of
         Inr wc \<Rightarrow> CpuShares (Resources wc) = 0
       | Inl e \<Rightarrow> map_option RunAsUidNotSupported (RunAsUser (effectiveSc rq)) = Some e"
    by (rule config_of_resources)
qed

text \<open>
  With a limit of 2500 millicores the shares are those of the limit, 5000 under the example
  mapping; with no limit and no request they are 0 in the returned configuration.
\<close>

theorem cpuShares_limit_then_request_witness:
  "resourcesBeforePrecedence (hostWith 4) (requestWith 2500 False) =
     Inr \<lparr>CpuShares = 5000, CpuCount = 0, CpuMaximum = 6250, MemoryLimitInBytes = 0\<rparr> \<and>
   MilliValue (cpuLimit (requestWith 0 False)) = 0 \<and>
   MilliValue (cpuRequest (requestWith 0 False)) = 0 \<and>
   milliCPUToShares (hostWith 4) 0 (isolatedByHyperv (requestWith 0 False)) = 0 \<and>
   (case generateWindowsContainerConfig (hostWith 4) (requestWith 0 False) of
      Inr wc \<Rightarrow> CpuShares (Resources wc) = 0
    | Inl e \<Rightarrow> False)"
  using cpuShares_limit_then_request [of "hostWith 4" "requestWith 2500 False"]
        cpuShares_limit_then_request [of "hostWith 4" "requestWith 0 False"]
  by (simp add: hostWith_def requestWith_def flatShares_def resourcesBeforePrecedence_eq
      computeCpuShares_def IsZero_def MilliValue_def clampCpuMaximum_def
      cpuMaximumBeforeClamp_def div64_def word_sless_alt split: sum.splits)

section \<open>The processor controls without Hyper-V isolation\<close>

text \<open>
  Claim C10. Without Hyper-V isolation the \<^verbatim>\<open>CpuCount\<close> of the record that enters the
  precedence block is 0, since only the Hyper-V branch assigns it. So the first branch of
  the block, the one for \<^verbatim>\<open>CpuCount > 0\<close>, is never taken: the block does what its
  second branch does. The \<^verbatim>\<open>CpuCount\<close> of every returned configuration is 0 as well.
\<close>

theorem default_cpuCount_zero:
  assumes "\<not> isolatedByHyperv rq"
  shows "(case resourcesBeforePrecedence h rq of
            Inr r \<Rightarrow> CpuCount r = 0 \<and> \<not> 0 <s CpuCount r \<and>
              applyPrecedence rq r =
                (if 0 <s CpuShares r \<and> 0 <s CpuMaximum r then r\<lparr>CpuMaximum := 0\<rparr> else r)
          | Inl e \<Rightarrow> e = PanicDivideByZero \<and> NumCPU h = 0 \<and> \<not> IsZero (cpuLimit rq)) \<and>
         (case generateWindowsContainerConfig h rq of
            Inr wc \<Rightarrow> CpuCount (Resources wc) = 0
          | Inl e \<Rightarrow> (e = PanicDivideByZero \<and> NumCPU h = 0 \<and> \<not> IsZero (cpuLimit rq)) \<or>
                     map_option RunAsUidNotSupported (RunAsUser (effectiveSc rq)) = Some e)"
proof (intro conjI)
  show "case resourcesBeforePrecedence h rq of
            Inr r \<Rightarrow> CpuCount r = 0 \<and> \<not> 0 <s CpuCount r \<and>
              applyPrecedence rq r =
                (if 0 <s CpuShares r \<and> 0 <s CpuMaximum r then r\<lparr>CpuMaximum := 0\<rparr> else r)
          | Inl e \<Rightarrow> e = PanicDivideByZero \<and> NumCPU h = 0 \<and> \<not> IsZero (cpuLimit rq)"
    using assms
    by (simp add: resourcesBeforePrecedence_eq applyPrecedence_def word_sless_alt)
next
  show "case generateWindowsContainerConfig h rq of
            Inr wc \<Rightarrow> CpuCount (Resources wc) = 0
          | Inl e \<Rightarrow> (e = PanicDivideByZero \<and> NumCPU h = 0 \<and> \<not> IsZero (cpuLimit rq)) \<or>
                     map_option RunAsUidNotSupported (RunAsUser (effectiveSc rq)) = Some e"
  proof (cases "generateWindowsContainerConfig h rq")
    case (Inl e)
    then show ?thesis using config_cases [of h rq] by simp
  next
    case (Inr wc)
    then have "generateResources h rq = Inr (Resources wc)"
      using config_cases [of h rq] by simp
    then have "CpuCount (Resources wc) = 0"
      by (rule generateResources_default(1) [OF assms])
    then show ?thesis using Inr by simp
  qed
qed

text \<open>A limit of 2500 millicores on 4 CPUs, without Hyper-V isolation.\<close>

theorem default_cpuCount_zero_witness:
  "\<not> isolatedByHyperv (requestWith 2500 False) \<and>
   resourcesBeforePrecedence (hostWith 4) (requestWith 2500 False) =
     Inr \<lparr>CpuShares = 5000, CpuCount = 0, CpuMaximum = 6250, MemoryLimitInBytes = 0\<rparr> \<and>
   (case generateWindowsContainerConfig (hostWith 4) (requestWith 2500 False) of
      Inr wc \<Rightarrow> CpuCount (Resources wc) = 0 | Inl e \<Rightarrow> False)"
  using default_cpuCount_zero [of "requestWith 2500 False" "hostWith 4"]
  by (simp add: example_defs stage_defs split: sum.splits)

text \<open>
  Claim C1. Without Hyper-V isolation, on a host with a positive CPU count, at most one of
  \<^verbatim>\<open>CpuCount\<close>, \<^verbatim>\<open>CpuShares\<close> and \<^verbatim>\<open>CpuMaximum\<close> is set in the returned resources,
  whatever the request, the limit and the memory limit are. The helper
  \<^verbatim>\<open>milliCPUToShares\<close> is the parameter of the host record; what is used of it is that it
  never returns a negative number of shares (the precedence block tests \<^verbatim>\<open>CpuShares > 0\<close>).
\<close>

theorem default_isolation_at_most_one_cpu_control:
  assumes "\<not> isolatedByHyperv rq" and "0 <s NumCPU h"
    and "\<And>m. 0 \<le>s milliCPUToShares h m False"
  shows "case generateWindowsContainerConfig h rq of
           Inr wc \<Rightarrow> nonZeroCpuControls (Resources wc) \<le> 1
         | Inl e \<Rightarrow> map_option RunAsUidNotSupported (RunAsUser (effectiveSc rq)) = Some e"
proof -
  from assms(2) have "NumCPU h \<noteq> 0" by auto
  then obtain r where r: "generateResources h rq = Inr r"
    by (auto intro: generateResources_Inr)
  have nonneg: "0 \<le>s computeCpuShares h rq"
    using assms(1,3) by (intro computeCpuShares_nonneg) simp
  have "nonZeroCpuControls r \<le> 1"
  proof (cases "computeCpuShares h rq = 0")
    case True
    then show ?thesis
      using generateResources_default [OF assms(1) r] by (simp add: nonZeroCpuControls_def)
  next
    case False
    with nonneg have "0 <s computeCpuShares h rq" by (rule pos_of_nonneg_nonzero)
    then show ?thesis
      using generateResources_default [OF assms(1) r] by (simp add: nonZeroCpuControls_def)
  qed
  with r show ?thesis by (rule config_of_resources)
qed

text \<open>A limit of 2500 millicores on 4 CPUs: the shares stay, the maximum is cleared.\<close>

theorem default_isolation_at_most_one_cpu_control_witness:
  "\<not> isolatedByHyperv (requestWith 2500 False) \<and> 0 <s NumCPU (hostWith 4) \<and>
   (\<forall>m. 0 \<le>s milliCPUToShares (hostWith 4) m False) \<and>
   generateWindowsContainerConfig (hostWith 4) (requestWith 2500 False) =
     Inr \<lparr>Resources = \<lparr>CpuShares = 5000, CpuCount = 0, CpuMaximum = 0, MemoryLimitInBytes = 0\<rparr>,
          SecurityContext = emptySecurityContext\<rparr> \<and>
   nonZeroCpuControls \<lparr>CpuShares = 5000, CpuCount = 0, CpuMaximum = 0, MemoryLimitInBytes = 0\<rparr> \<le> 1"
  using default_isolation_at_most_one_cpu_control [of "requestWith 2500 False" "hostWith 4"]
  by (simp add: example_defs stage_defs nonZeroCpuControls_def)

text \<open>
  Claim C8, as stated: with a positive limit and a positive CPU count, without Hyper-V
  isolation, the \<^verbatim>\<open>CpuMaximum\<close> of the returned record lies between 1 and 10000. It does
  not: a limit of 2500 millicores on 4 CPUs gives positive shares, and the precedence block
  then clears \<^verbatim>\<open>CpuMaximum\<close>, which is 0 in the returned record.
\<close>

theorem default_final_cpuMaximum_zero:
  "0 <s MilliValue (cpuLimit (requestWith 2500 False)) \<and> 0 <s NumCPU (hostWith 4) \<and>
   \<not> isolatedByHyperv (requestWith 2500 False) \<and>
   generateWindowsContainerConfig (hostWith 4) (requestWith 2500 False) =
     Inr \<lparr>Resources = \<lparr>CpuShares = 5000, CpuCount = 0, CpuMaximum = 0, MemoryLimitInBytes = 0\<rparr>,
          SecurityContext = emptySecurityContext\<rparr> \<and>
   \<not> 1 \<le>s CpuMaximum \<lparr>CpuShares = 5000, CpuCount = 0, CpuMaximum = 0, MemoryLimitInBytes = 0\<rparr>"
  by (simp add: example_defs stage_defs)

text \<open>
  Claim C8, amended. With a positive limit and a positive CPU count, without Hyper-V
  isolation, the \<^verbatim>\<open>CpuMaximum\<close> that enters the precedence block lies between 1 and
  10000. In the returned record it is 0 when \<^verbatim>\<open>CpuShares\<close> is positive, and lies between
  1 and 10000 otherwise.
\<close>

theorem default_cpuMaximum_range:
  assumes "\<not> isolatedByHyperv rq" and "0 <s MilliValue (cpuLimit rq)" and "0 <s NumCPU h"
  shows "(case resourcesBeforePrecedence h rq of
            Inr r \<Rightarrow> 1 \<le>s CpuMaximum r \<and> CpuMaximum r \<le>s 10000
          | Inl e \<Rightarrow> False) \<and>
         (case generateWindowsContainerConfig h rq of
            Inr wc \<Rightarrow>
              (if 0 <s CpuShares (Resources wc) then CpuMaximum (Resources wc) = 0
               else 1 \<le>s CpuMaximum (Resources wc) \<and> CpuMaximum (Resources wc) \<le>s 10000)
          | Inl e \<Rightarrow> map_option RunAsUidNotSupported (RunAsUser (effectiveSc rq)) = Some e)"
proof (intro conjI)
  from assms(2) have lim: "\<not> IsZero (cpuLimit rq)" by (auto simp add: IsZero_def MilliValue_def)
  from assms(3) have cpu: "NumCPU h \<noteq> 0" by auto
  show "case resourcesBeforePrecedence h rq of
            Inr r \<Rightarrow> 1 \<le>s CpuMaximum r \<and> CpuMaximum r \<le>s 10000
          | Inl e \<Rightarrow> False"
    using lim cpu by (simp add: resourcesBeforePrecedence_eq clamp_bounds)
  obtain r where r: "generateResources h rq = Inr r"
    using cpu by (auto intro: generateResources_Inr)
  have "if 0 <s CpuShares r then CpuMaximum r = 0
        else 1 \<le>s CpuMaximum r \<and> CpuMaximum r \<le>s 10000"
    using generateResources_default [OF assms(1) r] lim by (simp add: clamp_bounds)
  with r show "case generateWindowsContainerConfig h rq of
            Inr wc \<Rightarrow>
              (if 0 <s CpuShares (Resources wc) then CpuMaximum (Resources wc) = 0
               else 1 \<le>s CpuMaximum (Resources wc) \<and> CpuMaximum (Resources wc) \<le>s 10000)
          | Inl e \<Rightarrow> map_option RunAsUidNotSupported (RunAsUser (effectiveSc rq)) = Some e"
    by (rule config_of_resources)
qed

text \<open>
  A limit of 2500 millicores on 4 CPUs: 6250 before the precedence block; 0 in the result
  under the example mapping, and 6250 under a mapping that gives no shares.
\<close>

theorem default_cpuMaximum_range_witness:
  "\<not> isolatedByHyperv (requestWith 2500 False) \<and>
   0 <s MilliValue (cpuLimit (requestWith 2500 False)) \<and> 0 <s NumCPU (hostWith 4) \<and>
   resourcesBeforePrecedence (hostWith 4) (requestWith 2500 False) =
     Inr \<lparr>CpuShares = 5000, CpuCount = 0, CpuMaximum = 6250, MemoryLimitInBytes = 0\<rparr> \<and>
   (case generateWindowsContainerConfig (hostWith 4) (requestWith 2500 False) of
      Inr wc \<Rightarrow> CpuMaximum (Resources wc) = 0 | Inl e \<Rightarrow> False) \<and>
   (case generateWindowsContainerConfig
           ((hostWith 4)\<lparr>milliCPUToShares := (\<lambda>m hv. 0)\<rparr>) (requestWith 2500 False) of
      Inr wc \<Rightarrow> CpuMaximum (Resources wc) = 6250 | Inl e \<Rightarrow> False)"
  using default_cpuMaximum_range [of "requestWith 2500 False" "hostWith 4"]
    default_cpuMaximum_range [of "requestWith 2500 False" "(hostWith 4)\<lparr>milliCPUToShares := (\<lambda>m hv. 0)\<rparr>"]
  by (simp add: example_defs stage_defs split: sum.splits)

section \<open>The CPU maximum without Hyper-V isolation\<close>

text \<open>
  Claim C4, as stated: with a positive limit and a positive CPU count, without Hyper-V
  isolation, the \<^verbatim>\<open>CpuMaximum\<close> that the function computes is
  \<open>10000 * limit / count / 1000\<close> in integers, clamped to the range from 1 to 10000. For
  the limit of 922337203685478 millicores on 4 CPUs it is not: the product by 10000 does not
  fit in 64 bits and wraps to a negative number, so the function computes 1, where the
  formula gives 10000.
\<close>

theorem default_cpuMaximum_product_wraps:
  "\<not> isolatedByHyperv (requestWith 922337203685478 False) \<and>
   0 <s MilliValue (cpuLimit (requestWith 922337203685478 False)) \<and>
   0 <s NumCPU (hostWith 4) \<and>
   resourcesBeforePrecedence (hostWith 4) (requestWith 922337203685478 False) =
     Inr \<lparr>CpuShares = 5000, CpuCount = 0, CpuMaximum = 1, MemoryLimitInBytes = 0\<rparr> \<and>
   sint (1 :: int64) \<noteq> max 1 (min 10000 (10000 * 922337203685478 div 4 div 1000))"
  by (simp add: example_defs stage_defs)

text \<open>
  Claim C4, amended. With a positive limit and a positive CPU count, without Hyper-V
  isolation, the \<^verbatim>\<open>CpuMaximum\<close> that enters the precedence block is the product
  \<open>10000 * limit\<close>, wrapped to 64 bits, divided by the CPU count and then by 1000 with
  truncation, and clamped to the range from 1 to 10000. For a limit of at most
  922337203685477 millicores the product does not wrap, and the value is
  \<open>10000 * limit / count / 1000\<close> in integers, clamped.
\<close>

theorem default_cpuMaximum_formula:
  assumes "\<not> isolatedByHyperv rq" and "0 <s MilliValue (cpuLimit rq)" and "0 <s NumCPU h"
  shows "case resourcesBeforePrecedence h rq of
           Inr r \<Rightarrow>
             sint (CpuMaximum r) =
               max 1 (min 10000
                 (signed_take_bit 63 (10000 * sint (MilliValue (cpuLimit rq)))
                    sdiv sint (NumCPU h) sdiv 1000)) \<and>
             (sint (MilliValue (cpuLimit rq)) \<le> 922337203685477 \<longrightarrow>
                sint (CpuMaximum r) =
                  max 1 (min 10000
                    (10000 * sint (MilliValue (cpuLimit rq)) div sint (NumCPU h) div 1000)))
         | Inl e \<Rightarrow> False"
proof -
  from assms(2) have lim: "\<not> IsZero (cpuLimit rq)" and mpos: "0 < sint (MilliValue (cpuLimit rq))"
    by (auto simp add: IsZero_def MilliValue_def word_sless_alt)
  from assms(3) have cpu: "NumCPU h \<noteq> 0" and npos: "0 < sint (NumCPU h)"
    by (auto simp add: word_sless_alt)
  show ?thesis
    using lim cpu assms(1) npos mpos
    by (simp add: resourcesBeforePrecedence_eq sint_clamp
        sint_cpuMaximumBeforeClamp_default sint_cpuMaximumBeforeClamp_default_exact [symmetric])
qed

text \<open>A limit of 2500 millicores on 4 CPUs gives 6250.\<close>

theorem default_cpuMaximum_formula_witness:
  "\<not> isolatedByHyperv (requestWith 2500 False) \<and>
   0 <s MilliValue (cpuLimit (requestWith 2500 False)) \<and> 0 <s NumCPU (hostWith 4) \<and>
   sint (MilliValue (cpuLimit (requestWith 2500 False))) \<le> 922337203685477 \<and>
   resourcesBeforePrecedence (hostWith 4) (requestWith 2500 False) =
     Inr \<lparr>CpuShares = 5000, CpuCount = 0, CpuMaximum = 6250, MemoryLimitInBytes = 0\<rparr> \<and>
   max 1 (min 10000 (10000 * 2500 div 4 div 1000)) = (6250 :: int)"
  using default_cpuMaximum_formula [of "requestWith 2500 False" "hostWith 4"]
  by (simp add: example_defs stage_defs)

section \<open>The CPU count and maximum with Hyper-V isolation\<close>

text \<open>
  Claim C2, as stated: with Hyper-V isolation and a positive limit, the value of
  \<^verbatim>\<open>cpuMaximum\<close> before the clamp is \<open>limit * 10000 / (cpuCount * 1000)\<close>, the product
  taken exactly and divided once, so that 2500 millicores give the count 3 and the maximum
  8333. The count is 3, but line 68 divides by the count first: 2500 / 3 is 833, and the
  maximum is 8330.
\<close>

theorem hyperv_cpuMaximum_2500_is_8330:
  "isolatedByHyperv (requestWith 2500 True) \<and>
   0 <s MilliValue (cpuLimit (requestWith 2500 True)) \<and>
   sint (hypervCpuCount 2500) = \<lceil>2500 / 1000 :: real\<rceil> \<and>
   hypervCpuCount 2500 = 3 \<and>
   cpuMaximumBeforeClamp 2500 4 True = 8330 \<and>
   sint (cpuMaximumBeforeClamp 2500 4 True) \<noteq> 2500 * 10000 div (sint (hypervCpuCount 2500) * 1000)"
  by (simp add: example_defs stage_defs)

text \<open>
  Claim C2, amended. With Hyper-V isolation and a limit from 1 to \<open>2^63 - 1000\<close>
  millicores, the count is the limit divided by 1000 and rounded up, it is positive, and the
  value of \<^verbatim>\<open>cpuMaximum\<close> before the clamp is \<open>limit / cpuCount * 10000 / 1000\<close> with the
  division by the count first.
\<close>

theorem hyperv_cpuMaximum_divides_first:
  assumes "isolatedByHyperv rq" and "0 < sint (MilliValue (cpuLimit rq))"
    and "sint (MilliValue (cpuLimit rq)) \<le> 9223372036854774808"
  shows "sint (hypervCpuCount (MilliValue (cpuLimit rq))) =
           \<lceil>real_of_int (sint (MilliValue (cpuLimit rq))) / 1000\<rceil> \<and>
         0 < sint (hypervCpuCount (MilliValue (cpuLimit rq))) \<and>
         sint (cpuMaximumBeforeClamp (MilliValue (cpuLimit rq)) (NumCPU h) (isolatedByHyperv rq)) =
           sint (MilliValue (cpuLimit rq)) div sint (hypervCpuCount (MilliValue (cpuLimit rq)))
             * 10000 div 1000"
proof -
  let ?m = "MilliValue (cpuLimit rq)"
  have c: "sint (hypervCpuCount ?m) = (sint ?m + 999) div 1000"
    using assms(2,3) by (rule sint_hypervCpuCount)
  have "0 < sint (hypervCpuCount ?m)"
    using count_bounds(1) [OF assms(2)] c by simp
  moreover have "sint (cpuMaximumBeforeClamp ?m (NumCPU h) True) =
      sint ?m div sint (hypervCpuCount ?m) * 10000 div 1000"
    using assms(2,3) by (simp only: sint_cpuMaximumBeforeClamp_hyperv c)
  ultimately show ?thesis
    unfolding ceiling_div_1000 using assms(1) c by simp
qed

text \<open>2500 millicores give the count 3 and the maximum 8330.\<close>

theorem hyperv_cpuMaximum_divides_first_witness:
  "isolatedByHyperv (requestWith 2500 True) \<and>
   0 < sint (MilliValue (cpuLimit (requestWith 2500 True))) \<and>
   sint (MilliValue (cpuLimit (requestWith 2500 True))) \<le> 9223372036854774808 \<and>
   sint (hypervCpuCount 2500) = 3 \<and>
   sint (cpuMaximumBeforeClamp 2500 4 True) = 2500 div 3 * 10000 div 1000 \<and>
   sint (cpuMaximumBeforeClamp 2500 4 True) = 8330"
  using hyperv_cpuMaximum_divides_first [of "requestWith 2500 True" "hostWith 4"]
  by (simp add: example_defs MilliValue_def)

text \<open>
  Claim C3, as stated: with Hyper-V isolation, for every positive limit the \<^verbatim>\<open>CpuCount\<close>
  of the result is the limit divided by 1000 and rounded up. For the limit of
  \<open>2^63 - 1\<close> millicores it is not: the addition of 999 at line 64 wraps, and the count is
  negative.
\<close>

theorem hyperv_cpuCount_wraps:
  "isolatedByHyperv (requestWith 9223372036854775807 True) \<and>
   0 <s MilliValue (cpuLimit (requestWith 9223372036854775807 True)) \<and>
   generateWindowsContainerConfig (hostWith 4) (requestWith 9223372036854775807 True) =
     Inr \<lparr>Resources = \<lparr>CpuShares = 5000, CpuCount = - 9223372036854774, CpuMaximum = 1,
                        MemoryLimitInBytes = 0\<rparr>,
          SecurityContext = emptySecurityContext\<rparr> \<and>
   sint (- 9223372036854774 :: int64) \<noteq> \<lceil>9223372036854775807 / 1000 :: real\<rceil>"
  by (simp add: example_defs stage_defs)

text \<open>
  Claim C3, amended. With Hyper-V isolation, a non-zero CPU count of the host and a limit
  from 1 to \<open>2^63 - 1000\<close> millicores, the \<^verbatim>\<open>CpuCount\<close> of the result is the limit
  divided by 1000 and rounded up; it is not 0, so \<^verbatim>\<open>cpuMaximum\<close> is overridden with
  \<open>limit / cpuCount * 10000 / 1000\<close>, evaluated from left to right with truncating
  divisions, and the \<^verbatim>\<open>CpuMaximum\<close> of the result is the clamp of that value.
\<close>

theorem hyperv_cpuCount_and_override:
  assumes "isolatedByHyperv rq" and "0 < sint (MilliValue (cpuLimit rq))"
    and "sint (MilliValue (cpuLimit rq)) \<le> 9223372036854774808" and "NumCPU h \<noteq> 0"
  shows "case generateWindowsContainerConfig h rq of
           Inr wc \<Rightarrow>
             sint (CpuCount (Resources wc)) =
               \<lceil>real_of_int (sint (MilliValue (cpuLimit rq))) / 1000\<rceil> \<and>
             CpuCount (Resources wc) \<noteq> 0 \<and>
             sint (cpuMaximumBeforeClamp (MilliValue (cpuLimit rq)) (NumCPU h) True) =
               sint (MilliValue (cpuLimit rq)) sdiv sint (CpuCount (Resources wc))
                 * 10000 sdiv 1000 \<and>
             CpuMaximum (Resources wc) =
               clampCpuMaximum (cpuMaximumBeforeClamp (MilliValue (cpuLimit rq)) (NumCPU h) True)
         | Inl e \<Rightarrow> map_option RunAsUidNotSupported (RunAsUser (effectiveSc rq)) = Some e"
proof -
  let ?m = "MilliValue (cpuLimit rq)"
  from assms(2) have lim: "\<not> IsZero (cpuLimit rq)"
    by (auto simp add: IsZero_def MilliValue_def)
  obtain r where r: "generateResources h rq = Inr r"
    using assms(4) by (auto intro: generateResources_Inr)
  note out = generateResources_hyperv [OF assms(1) lim r]
  have c: "sint (hypervCpuCount ?m) = (sint ?m + 999) div 1000"
    using assms(2,3) by (rule sint_hypervCpuCount)
  have cpos: "0 < sint (hypervCpuCount ?m)"
    using count_bounds(1) [OF assms(2)] c by simp
  then have nz: "hypervCpuCount ?m \<noteq> 0" by auto
  have "sint (cpuMaximumBeforeClamp ?m (NumCPU h) True) =
      sint ?m div sint (hypervCpuCount ?m) * 10000 div 1000"
    using assms(2,3) by (simp only: sint_cpuMaximumBeforeClamp_hyperv c)
  also have "\<dots> = sint ?m sdiv sint (hypervCpuCount ?m) * 10000 sdiv 1000"
    using assms(2) cpos by (rule trunc_formula_pos [symmetric])
  finally have "sint (CpuCount r) = \<lceil>real_of_int (sint ?m) / 1000\<rceil> \<and>
      CpuCount r \<noteq> 0 \<and>
      sint (cpuMaximumBeforeClamp ?m (NumCPU h) True) =
        sint ?m sdiv sint (CpuCount r) * 10000 sdiv 1000 \<and>
      CpuMaximum r = clampCpuMaximum (cpuMaximumBeforeClamp ?m (NumCPU h) True)"
    unfolding ceiling_div_1000 using out c nz by simp
  with r show ?thesis by (rule config_of_resources)
qed

text \<open>2500 millicores on 4 CPUs: the count 3 and the maximum 8330.\<close>

theorem hyperv_cpuCount_and_override_witness:
  "isolatedByHyperv (requestWith 2500 True) \<and>
   0 < sint (MilliValue (cpuLimit (requestWith 2500 True))) \<and>
   sint (MilliValue (cpuLimit (requestWith 2500 True))) \<le> 9223372036854774808 \<and>
   NumCPU (hostWith 4) \<noteq> 0 \<and>
   generateWindowsContainerConfig (hostWith 4) (requestWith 2500 True) =
     Inr \<lparr>Resources = \<lparr>CpuShares = 5000, CpuCount = 3, CpuMaximum = 8330,
                        MemoryLimitInBytes = 0\<rparr>,
          SecurityContext = emptySecurityContext\<rparr> \<and>
   \<lceil>2500 / 1000 :: real\<rceil> = 3 \<and> (2500 :: int) sdiv 3 * 10000 sdiv 1000 = 8330"
  using hyperv_cpuCount_and_override [of "requestWith 2500 True" "hostWith 4"]
  by (simp add: example_defs stage_defs signed_divide_int_def)

text \<open>
  Claim C5, as stated: the clamp is applied only without Hyper-V isolation and before the
  Hyper-V override, so that with Hyper-V isolation the recomputed \<^verbatim>\<open>cpuMaximum\<close> reaches
  the result as it is. It does not: the clamp of lines 72 to 76 follows the override. For
  the limit of \<open>2^63 - 1\<close> millicores the recomputed value is -10000 and the result
  holds 1.
\<close>

theorem hyperv_cpuMaximum_is_clamped:
  "isolatedByHyperv (requestWith 9223372036854775807 True) \<and>
   0 <s MilliValue (cpuLimit (requestWith 9223372036854775807 True)) \<and>
   generateWindowsContainerConfig (hostWith 4) (requestWith 9223372036854775807 True) =
     Inr \<lparr>Resources = \<lparr>CpuShares = 5000, CpuCount = - 9223372036854774, CpuMaximum = 1,
                        MemoryLimitInBytes = 0\<rparr>,
          SecurityContext = emptySecurityContext\<rparr> \<and>
   cpuMaximumBeforeClamp 9223372036854775807 4 True = - 10000 \<and>
   (1 :: int64) \<noteq> cpuMaximumBeforeClamp 9223372036854775807 4 True"
  by (simp add: example_defs stage_defs)

text \<open>
  Claim C5, amended. The clamp follows the Hyper-V override: with Hyper-V isolation, a
  positive limit and a non-zero CPU count of the host, the \<^verbatim>\<open>CpuMaximum\<close> of the result
  is the clamp of the recomputed value and lies between 1 and 10000. For a limit of at most
  \<open>2^63 - 1000\<close> millicores the recomputed value is already between 10 and 10000, and the
  clamp leaves it as it is.
\<close>

theorem hyperv_clamp_after_override:
  assumes "isolatedByHyperv rq" and "0 <s MilliValue (cpuLimit rq)" and "NumCPU h \<noteq> 0"
  shows "case generateWindowsContainerConfig h rq of
           Inr wc \<Rightarrow>
             CpuMaximum (Resources wc) =
               clampCpuMaximum (cpuMaximumBeforeClamp (MilliValue (cpuLimit rq)) (NumCPU h) True) \<and>
             1 \<le>s CpuMaximum (Resources wc) \<and> CpuMaximum (Resources wc) \<le>s 10000 \<and>
             (sint (MilliValue (cpuLimit rq)) \<le> 9223372036854774808 \<longrightarrow>
                CpuMaximum (Resources wc) =
                  cpuMaximumBeforeClamp (MilliValue (cpuLimit rq)) (NumCPU h) True \<and>
                10 \<le> sint (CpuMaximum (Resources wc)))
         | Inl e \<Rightarrow> map_option RunAsUidNotSupported (RunAsUser (effectiveSc rq)) = Some e"
proof -
  let ?v = "cpuMaximumBeforeClamp (MilliValue (cpuLimit rq)) (NumCPU h) True"
  from assms(2) have lim: "\<not> IsZero (cpuLimit rq)" and mpos: "0 < sint (MilliValue (cpuLimit rq))"
    by (auto simp add: IsZero_def MilliValue_def word_sless_alt)
  obtain r where r: "generateResources h rq = Inr r"
    using assms(3) by (auto intro: generateResources_Inr)
  have out: "CpuMaximum r = clampCpuMaximum ?v"
    by (rule generateResources_hyperv(2) [OF assms(1) lim r])
  have same: "clampCpuMaximum ?v = ?v \<and> 10 \<le> sint ?v"
    if "sint (MilliValue (cpuLimit rq)) \<le> 9223372036854774808"
    using cpuMaximumBeforeClamp_hyperv_range [OF mpos that, of "NumCPU h"]
    by (simp add: clamp_id)
  have "CpuMaximum r = clampCpuMaximum ?v \<and> 1 \<le>s CpuMaximum r \<and> CpuMaximum r \<le>s 10000 \<and>
      (sint (MilliValue (cpuLimit rq)) \<le> 9223372036854774808 \<longrightarrow>
         CpuMaximum r = ?v \<and> 10 \<le> sint (CpuMaximum r))"
    using out same by (simp add: clamp_bounds)
  with r show ?thesis by (rule config_of_resources)
qed

text \<open>2500 millicores on 4 CPUs: the recomputed 8330 is the result.\<close>

theorem hyperv_clamp_after_override_witness:
  "isolatedByHyperv (requestWith 2500 True) \<and>
   0 <s MilliValue (cpuLimit (requestWith 2500 True)) \<and> NumCPU (hostWith 4) \<noteq> 0 \<and>
   sint (MilliValue (cpuLimit (requestWith 2500 True))) \<le> 9223372036854774808 \<and>
   generateWindowsContainerConfig (hostWith 4) (requestWith 2500 True) =
     Inr \<lparr>Resources = \<lparr>CpuShares = 5000, CpuCount = 3, CpuMaximum = 8330,
                        MemoryLimitInBytes = 0\<rparr>,
          SecurityContext = emptySecurityContext\<rparr> \<and>
   cpuMaximumBeforeClamp 2500 4 True = 8330"
  using hyperv_clamp_after_override [of "requestWith 2500 True" "hostWith 4"]
  by (simp add: example_defs stage_defs)

end
